theory Spec2Isabelle
  imports Complex_Main
begin

section \<open>Python values used by the handlers\<close>

text \<open>
  The service is one Python module, \<^verbatim>\<open>main.py\<close>. Python \<^verbatim>\<open>int\<close> is \<^typ>\<open>int\<close>,
  \<^verbatim>\<open>str\<close> is \<^typ>\<open>string\<close> (ASCII text; bytes from 128 on are left alone by the case
  mappings below), \<^verbatim>\<open>Optional[str]\<close> is \<^typ>\<open>string option\<close>. Python \<^verbatim>\<open>float\<close> values
  (clock readings, volumes) are read as the real numbers they denote: the properties
  proved are about the arithmetic the code writes down, not about rounding.
\<close>

subsection \<open>\<^verbatim>\<open>str(int)\<close>\<close>

definition digit_char :: "nat \<Rightarrow> char" where
  "digit_char d = char_of (48 + d)"

function str_nat :: "nat \<Rightarrow> string" where
  "str_nat n = (if n < 10 then [digit_char n] else str_nat (n div 10) @ [digit_char (n mod 10)])"
  by pat_completeness auto
termination
  by (relation "measure id") auto

declare str_nat.simps [simp del]

definition str_int :: "int \<Rightarrow> string" where
  "str_int i = (if i < 0 then CHR ''-'' # str_nat (nat (- i)) else str_nat (nat i))"

text \<open>\<^verbatim>\<open>format(x)\<close> of an \<^verbatim>\<open>Optional[str]\<close> inside an f-string: \<^verbatim>\<open>None\<close> prints as the word.\<close>

definition str_opt :: "string option \<Rightarrow> string" where
  "str_opt x = (case x of None \<Rightarrow> ''None'' | Some s \<Rightarrow> s)"

subsection \<open>\<^verbatim>\<open>str.upper\<close>, \<^verbatim>\<open>str.lower\<close>, \<^verbatim>\<open>in\<close>, \<^verbatim>\<open>str(list)\<close>\<close>

definition upper_char :: "char \<Rightarrow> char" where
  "upper_char c = (let n = (of_char c :: nat) in if 97 \<le> n \<and> n \<le> 122 then char_of (n - 32) else c)"

definition lower_char :: "char \<Rightarrow> char" where
  "lower_char c = (let n = (of_char c :: nat) in if 65 \<le> n \<and> n \<le> 90 then char_of (n + 32) else c)"

definition upper :: "string \<Rightarrow> string" where
  "upper s = map upper_char s"

definition lower :: "string \<Rightarrow> string" where
  "lower s = map lower_char s"

fun startswith :: "string \<Rightarrow> string \<Rightarrow> bool" where
  "startswith s [] = True"
| "startswith [] (q # qs) = False"
| "startswith (c # s) (q # qs) = (c = q \<and> startswith s qs)"

text \<open>\<^verbatim>\<open>q in s\<close> on strings: \<open>q\<close> occurs in \<open>s\<close> as a contiguous piece.\<close>

fun str_in :: "string \<Rightarrow> string \<Rightarrow> bool" where
  "str_in q [] = (q = [])"
| "str_in q (c # s) = (startswith (c # s) q \<or> str_in q s)"

text \<open>
  \<^verbatim>\<open>repr\<close> of a \<^verbatim>\<open>str\<close>: single quotes, unless the text has a single quote and no
  double quote; backslash, the chosen quote, tab, newline and carriage return are
  escaped, other control bytes are written \<^verbatim>\<open>\xNN\<close>; bytes from 128 on are kept.
  The seed tags are lower-case ASCII words, which come out between single quotes.
\<close>

definition hex_digit :: "nat \<Rightarrow> char" where
  "hex_digit d = (if d < 10 then char_of (48 + d) else char_of (87 + d))"

definition repr_char :: "char \<Rightarrow> char \<Rightarrow> string" where
  "repr_char quote c =
     (let n = (of_char c :: nat) in
      if c = quote \<or> n = 92 then [char_of (92::nat), c]
      else if n = 9 then [char_of (92::nat), CHR ''t'']
      else if n = 10 then [char_of (92::nat), CHR ''n'']
      else if n = 13 then [char_of (92::nat), CHR ''r'']
      else if n < 32 \<or> n = 127 then [char_of (92::nat), CHR ''x'', hex_digit (n div 16), hex_digit (n mod 16)]
      else [c])"

definition repr_str :: "string \<Rightarrow> string" where
  "repr_str s =
     (let quote = (if char_of (39::nat) \<in> set s \<and> char_of (34::nat) \<notin> set s
                   then char_of (34::nat) else char_of (39::nat))
      in quote # concat (map (repr_char quote) s) @ [quote])"

fun join_comma :: "string list \<Rightarrow> string" where
  "join_comma [] = []"
| "join_comma [x] = x"
| "join_comma (x # y # ys) = x @ '', '' @ join_comma (y # ys)"

text \<open>\<^verbatim>\<open>str(tags)\<close> for a list of strings.\<close>

definition str_list :: "string list \<Rightarrow> string" where
  "str_list xs = ''['' @ join_comma (map repr_str xs) @ '']''"

subsection \<open>Slices and \<^verbatim>\<open>list.sort(key=..., reverse=True)\<close>\<close>

text \<open>
  \<^verbatim>\<open>xs[start:end]\<close>: a negative bound counts from the end, and both bounds are clipped
  to the list.
\<close>

definition slice_bound :: "nat \<Rightarrow> int \<Rightarrow> nat" where
  "slice_bound n i = (if i < 0 then nat (max 0 (int n + i)) else min n (nat i))"

definition py_slice :: "'a list \<Rightarrow> int \<Rightarrow> int \<Rightarrow> 'a list" where
  "py_slice xs start end =
     (let lo = slice_bound (length xs) start; hi = slice_bound (length xs) end
      in take (hi - lo) (drop lo xs))"

text \<open>
  A stable sort with \<^verbatim>\<open>reverse=True\<close>: CPython reverses the list, sorts it stably in
  ascending key order and reverses it again, so equal keys keep their first order.
\<close>

definition sort_reverse :: "('a \<Rightarrow> real) \<Rightarrow> 'a list \<Rightarrow> 'a list" where
  "sort_reverse key xs = rev (sort_key key (rev xs))"

section \<open>Data model\<close>

record market =
  market_id :: int
  question :: string
  description :: string
  category :: string
  image_url :: string
  tags :: "string list"
  source_url :: string
  resolution_rules :: string
  yes_price_bps :: int
  no_price_bps :: int
  total_volume_usd :: real
  volume_24h_usd :: real
  total_liquidity :: real
  num_traders :: int

record market_search_result =
  markets :: "market list"
  total_count :: int
  page :: int
  page_size :: int

record create_market_request =
  req_question :: string
  req_description :: string
  req_category :: string
  req_image_ipfs_hash :: "string option"
  req_image_url :: "string option"
  req_tags :: "string list"
  req_source_url :: "string option"
  req_resolution_rules :: string

text \<open>The dict \<^verbatim>\<open>new_meta\<close> that \<^verbatim>\<open>create_market_metadata\<close> composes.\<close>

record pending_meta =
  meta_metadata_id :: string
  meta_question :: string
  meta_description :: string
  meta_category :: string
  meta_image_url :: string
  meta_tags :: "string list"
  meta_source_url :: "string option"
  meta_resolution_rules :: string
  meta_created_at :: real

text \<open>
  The cache holds any Python object (\<^verbatim>\<open>val: object\<close>). These are the kinds the module
  stores or hands back, with \<^verbatim>\<open>None\<close>, numbers and strings for the general case.
\<close>

datatype pyobj =
    PyNone
  | PyInt int
  | PyStr string
  | PyMarket market
  | PyMarketList "market list"
  | PySearchResult market_search_result
  | PyMeta pending_meta

text \<open>Python truth value, as \<^verbatim>\<open>if cached:\<close> tests it.\<close>

fun truthy :: "pyobj \<Rightarrow> bool" where
  "truthy PyNone = False"
| "truthy (PyInt i) = (i \<noteq> 0)"
| "truthy (PyStr s) = (s \<noteq> [])"
| "truthy (PyMarket m) = True"
| "truthy (PyMarketList ms) = (ms \<noteq> [])"
| "truthy (PySearchResult r) = True"
| "truthy (PyMeta d) = True"

definition truthy_str :: "string option \<Rightarrow> bool" where
  "truthy_str x = (case x of None \<Rightarrow> False | Some s \<Rightarrow> s \<noteq> [])"

section \<open>In-memory cache\<close>

text \<open>
  \<^verbatim>\<open>_cache: dict[str, tuple[float, object]]\<close>. The module constant
  \<^verbatim>\<open>CACHE_TTL_SECONDS\<close> comes from the environment and is the parameter \<open>ttl\<close>; each call
  of \<^verbatim>\<open>time.time()\<close> is the parameter \<open>now\<close> of the function that makes it.
\<close>

type_synonym cache = "string \<rightharpoonup> (real \<times> pyobj)"

definition cache_get :: "int \<Rightarrow> cache \<Rightarrow> real \<Rightarrow> string \<Rightarrow> pyobj" where
  "cache_get ttl c now key =
     (case c key of
        Some (ts, val) \<Rightarrow> if now - ts < real_of_int ttl then val else PyNone
      | None \<Rightarrow> PyNone)"

definition cache_set :: "cache \<Rightarrow> real \<Rightarrow> string \<Rightarrow> pyobj \<Rightarrow> cache" where
  "cache_set c now key val = c(key \<mapsto> (now, val))"

section \<open>Seed data\<close>

text \<open>
  \<^verbatim>\<open>MOCK_MARKETS\<close>: four dicts, every one with every key, so the defaults of
  \<^verbatim>\<open>m.get(key, default)\<close> in the handlers are never taken and a dict is a record.
\<close>

definition MOCK_MARKETS :: "market list" where
  "MOCK_MARKETS = [
     \<lparr> market_id = 1,
       question = ''Will the Fed cut rates by 50bps before June 2025?'',
       description = ''Resolves YES if the Federal Reserve announces a 50 basis point or greater rate cut before June 30, 2025. Resolution source: Fed official press releases.'',
       category = ''POLITICS'',
       image_url = ''https://images.unsplash.com/photo-1611974789855-9c2a0a7236a3?w=400'',
       tags = [''fed'', ''rates'', ''macro'', ''finance''],
       source_url = ''https://federalreserve.gov'',
       resolution_rules = ''Resolves YES if FOMC minutes confirm '' @ [CHR 0xE2, CHR 0x89, CHR 0xA5] @ ''50bps cut before June 30 2025.'',
       yes_price_bps = 6840,
       no_price_bps = 3160,
       total_volume_usd = 2450000,
       volume_24h_usd = 185000,
       total_liquidity = 890000,
       num_traders = 1247 \<rparr>,
     \<lparr> market_id = 2,
       question = ''Will Bitcoin exceed $150K before end of 2025?'',
       description = ''Resolves YES if BTC/USD spot price on Coinbase Pro crosses $150,000 at any point before Dec 31, 2025 23:59 UTC.'',
       category = ''CRYPTO'',
       image_url = ''https://images.unsplash.com/photo-1518546305927-5a555bb7020d?w=400'',
       tags = [''bitcoin'', ''btc'', ''crypto'', ''price''],
       source_url = ''https://coinbase.com'',
       resolution_rules = ''Resolves YES if BTC/USD on Coinbase Pro >= $150,000 before EOY 2025.'',
       yes_price_bps = 4230,
       no_price_bps = 5770,
       total_volume_usd = 8920000,
       volume_24h_usd = 720000,
       total_liquidity = 3100000,
       num_traders = 5832 \<rparr>,
     \<lparr> market_id = 3,
       question = ''Will the Kansas City Chiefs win Super Bowl LX?'',
       description = ''Resolves YES if the Kansas City Chiefs win Super Bowl LX (Feb 2026). Resolution: official NFL result.'',
       category = ''SPORTS'',
       image_url = ''https://images.unsplash.com/photo-1566577739112-5180d4bf9390?w=400'',
       tags = [''nfl'', ''superbowl'', ''chiefs'', ''sports''],
       source_url = ''https://nfl.com'',
       resolution_rules = ''Resolves YES if KC Chiefs are Super Bowl LX champions.'',
       yes_price_bps = 3100,
       no_price_bps = 6900,
       total_volume_usd = 1230000,
       volume_24h_usd = 95000,
       total_liquidity = 450000,
       num_traders = 892 \<rparr>,
     \<lparr> market_id = 4,
       question = ''Will GPT-5 be released before Claude 4?'',
       description = ''Resolves YES if OpenAI officially releases GPT-5 to the public before Anthropic releases Claude 4 (successor to Claude 3). Based on official announcements.'',
       category = ''CULTURE'',
       image_url = ''https://images.unsplash.com/photo-1677442135703-1787eea5ce01?w=400'',
       tags = [''ai'', ''openai'', ''anthropic'', ''llm''],
       source_url = ''https://openai.com'',
       resolution_rules = ''Resolves YES if GPT-5 public release precedes Claude 4 public release.'',
       yes_price_bps = 5500,
       no_price_bps = 4500,
       total_volume_usd = 680000,
       volume_24h_usd = 48000,
       total_liquidity = 220000,
       num_traders = 418 \<rparr> ]"

section \<open>Request handlers that use the cache\<close>

text \<open>
  A handler takes the cache and returns it, updated, beside its response. Its parameters
  \<open>t_get\<close> and \<open>t_set\<close> are the clock readings inside \<open>cache_get\<close> and \<open>cache_set\<close>.
  The query parameters are named \<open>cat\<close>, \<open>pg\<close>, \<open>pg_size\<close> and \<open>mid\<close> here, for
  \<^verbatim>\<open>category\<close>, \<^verbatim>\<open>page\<close>, \<^verbatim>\<open>page_size\<close> and \<^verbatim>\<open>market_id\<close>, which are field names too.
\<close>

subsection \<open>\<^verbatim>\<open>GET /markets\<close>\<close>

text \<open>The bounds FastAPI checks before the handler runs (\<^verbatim>\<open>ge=1\<close>, \<^verbatim>\<open>le=100\<close>).\<close>

definition valid_list_query :: "int \<Rightarrow> int \<Rightarrow> bool" where
  "valid_list_query pg pg_size = (1 \<le> pg \<and> 1 \<le> pg_size \<and> pg_size \<le> 100)"

definition markets_cache_key ::
  "string option \<Rightarrow> string \<Rightarrow> int \<Rightarrow> int \<Rightarrow> string option \<Rightarrow> string" where
  "markets_cache_key cat sort_by pg pg_size search =
     ''markets:'' @ str_opt cat @ '':'' @ sort_by @ '':'' @ str_int pg @ '':'' @
     str_int pg_size @ '':'' @ str_opt search"

definition category_matches :: "string \<Rightarrow> market \<Rightarrow> bool" where
  "category_matches c m = (upper (category m) = upper c)"

definition search_matches :: "string \<Rightarrow> market \<Rightarrow> bool" where
  "search_matches s m =
     (let q = lower s
      in str_in q (lower (question m)) \<or> str_in q (lower (str_list (tags m))))"

definition filter_category :: "string option \<Rightarrow> market list \<Rightarrow> market list" where
  "filter_category cat ms =
     (case cat of
        Some c \<Rightarrow> if c \<noteq> [] then filter (category_matches c) ms else ms
      | None \<Rightarrow> ms)"

definition filter_search :: "string option \<Rightarrow> market list \<Rightarrow> market list" where
  "filter_search search ms =
     (case search of
        Some s \<Rightarrow> if s \<noteq> [] then filter (search_matches s) ms else ms
      | None \<Rightarrow> ms)"

text \<open>\<^verbatim>\<open>sort_map.get(sort_by, sort_map["volume_24h"])\<close>.\<close>

definition sort_map :: "string \<Rightarrow> (market \<Rightarrow> real) option" where
  "sort_map k =
     (if k = ''volume_24h'' then Some volume_24h_usd
      else if k = ''total_volume'' then Some total_volume_usd
      else if k = ''num_traders'' then Some (\<lambda>m. real_of_int (num_traders m))
      else if k = ''yes_price'' then Some (\<lambda>m. real_of_int (yes_price_bps m))
      else None)"

definition sort_field :: "string \<Rightarrow> market \<Rightarrow> real" where
  "sort_field sort_by = (case sort_map sort_by of Some f \<Rightarrow> f | None \<Rightarrow> volume_24h_usd)"

text \<open>What the handler computes when the cache does not answer.\<close>

definition list_markets_compute ::
  "string option \<Rightarrow> string \<Rightarrow> int \<Rightarrow> int \<Rightarrow> string option \<Rightarrow> market_search_result" where
  "list_markets_compute cat sort_by pg pg_size search =
     (let ms = sort_reverse (sort_field sort_by)
                 (filter_search search (filter_category cat MOCK_MARKETS));
          total = int (length ms);
          start = (pg - 1) * pg_size;
          end = start + pg_size;
          paged = py_slice ms start end
      in \<lparr> markets = paged, total_count = total, page = pg, page_size = pg_size \<rparr>)"

definition list_markets ::
  "int \<Rightarrow> cache \<Rightarrow> real \<Rightarrow> real \<Rightarrow> string option \<Rightarrow> string \<Rightarrow> int \<Rightarrow> int \<Rightarrow> string option
     \<Rightarrow> pyobj \<times> cache" where
  "list_markets ttl c t_get t_set cat sort_by pg pg_size search =
     (let cache_key = markets_cache_key cat sort_by pg pg_size search;
          cached = cache_get ttl c t_get cache_key
      in if truthy cached then (cached, c)
         else let result = PySearchResult (list_markets_compute cat sort_by pg pg_size search)
              in (result, cache_set c t_set cache_key result))"

subsection \<open>\<^verbatim>\<open>GET /markets/hot\<close>\<close>

definition valid_hot_query :: "int \<Rightarrow> bool" where
  "valid_hot_query limit = (1 \<le> limit \<and> limit \<le> 20)"

definition hot_score :: "market \<Rightarrow> real" where
  "hot_score m = volume_24h_usd m * real_of_int \<bar>yes_price_bps m - 5000\<bar> / 5000"

definition hot_cache_key :: "int \<Rightarrow> string" where
  "hot_cache_key limit = ''hot:'' @ str_int limit"

definition hot_markets :: "int \<Rightarrow> cache \<Rightarrow> real \<Rightarrow> real \<Rightarrow> int \<Rightarrow> pyobj \<times> cache" where
  "hot_markets ttl c t_get t_set limit =
     (let cached = cache_get ttl c t_get (hot_cache_key limit)
      in if truthy cached then (cached, c)
         else let scored = sort_reverse hot_score MOCK_MARKETS;
                  result = PyMarketList (py_slice scored 0 limit)
              in (result, cache_set c t_set (hot_cache_key limit) result))"

subsection \<open>\<^verbatim>\<open>GET /markets/{market_id}\<close>\<close>

datatype http_exception = HTTPException (status_code: int) (detail: string)

definition market_cache_key :: "int \<Rightarrow> string" where
  "market_cache_key mid = ''market:'' @ str_int mid"

definition get_market ::
  "int \<Rightarrow> cache \<Rightarrow> real \<Rightarrow> real \<Rightarrow> int \<Rightarrow> (http_exception + pyobj) \<times> cache" where
  "get_market ttl c t_get t_set mid =
     (let cached = cache_get ttl c t_get (market_cache_key mid)
      in if truthy cached then (Inr cached, c)
         else case find (\<lambda>m. market_id m = mid) MOCK_MARKETS of
                None \<Rightarrow> (Inl (HTTPException 404 (''Market '' @ str_int mid @ '' not found'')), c)
              | Some m \<Rightarrow> (Inr (PyMarket m), cache_set c t_set (market_cache_key mid) (PyMarket m)))"

subsection \<open>\<^verbatim>\<open>POST /markets\<close>\<close>

text \<open>\<^verbatim>\<open>int(x)\<close> of a float cuts the fraction off, towards zero.\<close>

definition int_of_float :: "real \<Rightarrow> int" where
  "int_of_float x = (if 0 \<le> x then \<lfloor>x\<rfloor> else \<lceil>x\<rceil>)"

text \<open>
  \<^verbatim>\<open>req.image_url or f"{IPFS_GATEWAY}{req.image_ipfs_hash}" if req.image_ipfs_hash else ""\<close>.
  A conditional expression binds weaker than \<^verbatim>\<open>or\<close>, so Python reads
  \<^verbatim>\<open>(req.image_url or f"...") if req.image_ipfs_hash else ""\<close>.
  \<^verbatim>\<open>IPFS_GATEWAY\<close> comes from the environment and is the parameter \<open>gateway\<close>.
\<close>

definition resolve_image_url :: "string \<Rightarrow> create_market_request \<Rightarrow> string" where
  "resolve_image_url gateway req =
     (if truthy_str (req_image_ipfs_hash req)
      then (if truthy_str (req_image_url req) then str_opt (req_image_url req)
            else gateway @ str_opt (req_image_ipfs_hash req))
      else [])"

record create_response =
  resp_metadata_id :: string
  resp_ipfs_uri :: string

text \<open>
  The handler reads the clock three times: for the id, for \<^verbatim>\<open>created_at\<close> and inside
  \<open>cache_set\<close>.
\<close>

definition pending_meta_cache_key :: "string \<Rightarrow> string" where
  "pending_meta_cache_key metadata_id = ''pending_meta:'' @ metadata_id"

definition create_market_metadata ::
  "string \<Rightarrow> cache \<Rightarrow> real \<Rightarrow> real \<Rightarrow> real \<Rightarrow> create_market_request \<Rightarrow> create_response \<times> cache" where
  "create_market_metadata gateway c t_id t_created t_set req =
     (let metadata_id = ''vp-'' @ str_int (int_of_float t_id);
          new_meta = \<lparr> meta_metadata_id = metadata_id,
                       meta_question = req_question req,
                       meta_description = req_description req,
                       meta_category = req_category req,
                       meta_image_url = resolve_image_url gateway req,
                       meta_tags = req_tags req,
                       meta_source_url = req_source_url req,
                       meta_resolution_rules = req_resolution_rules req,
                       meta_created_at = t_created \<rparr>
      in (\<lparr> resp_metadata_id = metadata_id, resp_ipfs_uri = ''ipfs://'' @ metadata_id \<rparr>,
          cache_set c t_set (pending_meta_cache_key metadata_id) (PyMeta new_meta)))"

subsection \<open>Cache states the service can reach\<close>

text \<open>
  The cache starts empty and only these four handlers write to it. A request reaches
  its handler only when FastAPI has accepted its parameters.
\<close>

inductive reachable :: "int \<Rightarrow> string \<Rightarrow> cache \<Rightarrow> bool" for ttl :: int and gateway :: string where
  start: "reachable ttl gateway Map.empty"
| after_list_markets:
    "reachable ttl gateway c \<Longrightarrow> valid_list_query pg pg_size \<Longrightarrow>
     reachable ttl gateway (snd (list_markets ttl c t_get t_set cat sort_by pg pg_size search))"
| after_hot_markets:
    "reachable ttl gateway c \<Longrightarrow> valid_hot_query limit \<Longrightarrow>
     reachable ttl gateway (snd (hot_markets ttl c t_get t_set limit))"
| after_get_market:
    "reachable ttl gateway c \<Longrightarrow>
     reachable ttl gateway (snd (get_market ttl c t_get t_set mid))"
| after_create_market_metadata:
    "reachable ttl gateway c \<Longrightarrow>
     reachable ttl gateway (snd (create_market_metadata gateway c t_id t_created t_set req))"

section \<open>Handlers that synthesise their response\<close>

subsection \<open>\<^verbatim>\<open>GET /markets/{market_id}/trades\<close>\<close>

record trade =
  trade_market_id :: int
  trader :: string
  is_buy_yes :: bool
  usdc_in :: real
  shares_out :: real
  price_bps :: int
  tx_hash :: string
  timestamp :: real

definition valid_trades_query :: "int \<Rightarrow> bool" where
  "valid_trades_query limit = (1 \<le> limit \<and> limit \<le> 500)"

text \<open>
  The list comprehension calls \<^verbatim>\<open>time.time()\<close> once for every record: \<open>now_at i\<close> is
  the reading taken while record \<open>i\<close> is built.
\<close>

definition mock_trade :: "(nat \<Rightarrow> real) \<Rightarrow> int \<Rightarrow> nat \<Rightarrow> trade" where
  "mock_trade now_at mid i =
     \<lparr> trade_market_id = mid,
       trader = ''0xabc123...'',
       is_buy_yes = True,
       usdc_in = 5000,
       shares_out = 7320.5,
       price_bps = 6840,
       tx_hash = ''0x'' @ replicate 64 (CHR ''a''),
       timestamp = now_at i - real (i * 30) \<rparr>"

definition get_market_trades :: "(nat \<Rightarrow> real) \<Rightarrow> int \<Rightarrow> int \<Rightarrow> real option \<Rightarrow> trade list" where
  "get_market_trades now_at mid limit before_ts =
     map (mock_trade now_at mid) [0 ..< nat (min limit 20)]"

subsection \<open>\<^verbatim>\<open>GET /markets/{market_id}/price-history\<close>\<close>

text \<open>
  The standard module \<^verbatim>\<open>random\<close> is a parameter: a generator state \<open>'s\<close>, the state
  that \<^verbatim>\<open>random.seed(n)\<close> installs, and the two draws the handler makes, each returning
  its value and the next state.
\<close>

record 's py_random =
  rng_seed :: "int \<Rightarrow> 's"
  rng_randint :: "'s \<Rightarrow> int \<Rightarrow> int \<Rightarrow> int \<times> 's"
  rng_uniform :: "'s \<Rightarrow> real \<Rightarrow> real \<Rightarrow> real \<times> 's"

record candle =
  candle_time :: int
  candle_open :: int
  candle_high :: int
  candle_low :: int
  candle_close :: int
  candle_volume :: real

record price_history =
  ph_market_id :: int
  ph_interval :: string
  ph_candles :: "candle list"

definition valid_history_query :: "int \<Rightarrow> bool" where
  "valid_history_query limit = (1 \<le> limit \<and> limit \<le> 1000)"

definition intervals :: "(string \<times> int) list" where
  "intervals = [(''1m'', 60), (''5m'', 300), (''15m'', 900), (''1h'', 3600), (''4h'', 14400),
                (''1d'', 86400)]"

text \<open>\<^verbatim>\<open>intervals.get(interval, 3600)\<close>.\<close>

definition interval_step :: "string \<Rightarrow> int" where
  "interval_step interval = (case map_of intervals interval of Some s \<Rightarrow> s | None \<Rightarrow> 3600)"

text \<open>
  One round of \<^verbatim>\<open>for i in range(limit, 0, -1)\<close>: the candle it appends, the price
  it leaves (\<^verbatim>\<open>price = close\<close>) and the generator after its four draws.
\<close>

definition candle_step :: "'s py_random \<Rightarrow> int \<Rightarrow> int \<Rightarrow> int \<Rightarrow> int \<Rightarrow> 's \<Rightarrow> candle \<times> int \<times> 's" where
  "candle_step R now step i price g =
     (let t = now - i * step;
          (delta, g1) = rng_randint R g (- 200) 200;
          opn = price;
          close = max 100 (min 9900 (price + delta));
          (up, g2) = rng_randint R g1 0 100;
          high = max opn close + up;
          (down, g3) = rng_randint R g2 0 100;
          low = min opn close - down;
          (vol, g4) = rng_uniform R g3 10000 200000
      in (\<lparr> candle_time = t, candle_open = opn, candle_high = high, candle_low = low,
            candle_close = close, candle_volume = vol \<rparr>, close, g4))"

text \<open>
  The loop, with \<open>i\<close> counting down to 1: the candle of this round is put in front of
  the candles of the later rounds, which is the order \<^verbatim>\<open>candles.append\<close> leaves them in.
\<close>

fun candle_loop :: "'s py_random \<Rightarrow> int \<Rightarrow> int \<Rightarrow> nat \<Rightarrow> int \<Rightarrow> 's \<Rightarrow> candle list \<times> 's" where
  "candle_loop R now step 0 price g = ([], g)"
| "candle_loop R now step (Suc j) price g =
     (let (c, price', g') = candle_step R now step (int (Suc j)) price g;
          (rest, g'') = candle_loop R now step j price' g'
      in (c # rest, g''))"

text \<open>
  \<open>g\<close> is the state of the module's generator when the request arrives, \<open>t\<close> the
  reading of \<^verbatim>\<open>time.time()\<close>; the generator's last state is returned beside the response.
\<close>

definition get_price_history ::
  "'s py_random \<Rightarrow> 's \<Rightarrow> real \<Rightarrow> int \<Rightarrow> string \<Rightarrow> int \<Rightarrow> price_history \<times> 's" where
  "get_price_history R g t mid interval limit =
     (let now = int_of_float t;
          step = interval_step interval;
          (candles, g') = candle_loop R now step (nat limit) 5000 (rng_seed R mid)
      in (\<lparr> ph_market_id = mid, ph_interval = interval, ph_candles = candles \<rparr>, g'))"

section \<open>Properties stated about the handlers\<close>

text \<open>Every cache entry under a single-market key holds the seed record of that id.\<close>

definition market_entries_ok :: "cache \<Rightarrow> bool" where
  "market_entries_ok c =
     (\<forall>mid ts v. c (market_cache_key mid) = Some (ts, v) \<longrightarrow>
        (\<exists>m. find (\<lambda>m. market_id m = mid) MOCK_MARKETS = Some m \<and> v = PyMarket m))"

text \<open>The value of a decimal numeral, to tell two renderings of integers apart.\<close>

definition digits_value :: "string \<Rightarrow> nat" where
  "digits_value s = foldl (\<lambda>acc c. 10 * acc + (of_char c - 48)) 0 s"

text \<open>
  A seed market passes the filters of a request: a category or search text that is
  missing or empty does not filter.
\<close>

definition passes_filters :: "string option \<Rightarrow> string option \<Rightarrow> market \<Rightarrow> bool" where
  "passes_filters cat search m =
     ((case cat of None \<Rightarrow> True | Some c \<Rightarrow> c = [] \<or> upper (category m) = upper c) \<and>
      (case search of None \<Rightarrow> True
       | Some s \<Rightarrow> s = [] \<or> str_in (lower s) (lower (question m)) \<or>
                  str_in (lower s) (lower (str_list (tags m)))))"

text \<open>\<open>a\<close> stands before \<open>b\<close> in the list \<open>xs\<close> (at its first occurrence).\<close>

fun before_in :: "'a list \<Rightarrow> 'a \<Rightarrow> 'a \<Rightarrow> bool" where
  "before_in [] a b = False"
| "before_in (x # xs) a b = (if x = a then b \<in> set xs else before_in xs a b)"

text \<open>
  The order the listing promises: a larger sort value first, and among equal sort values
  the order of the seed list.
\<close>

definition listed_before :: "string \<Rightarrow> market \<Rightarrow> market \<Rightarrow> bool" where
  "listed_before sort_by a b =
     (sort_field sort_by b < sort_field sort_by a \<or>
      (sort_field sort_by a = sort_field sort_by b \<and> before_in MOCK_MARKETS a b))"

text \<open>The page length that the pagination rule gives.\<close>

definition expected_page_length :: "int \<Rightarrow> int \<Rightarrow> int \<Rightarrow> int" where
  "expected_page_length n pg pg_size = min pg_size (max 0 (n - (pg - 1) * pg_size))"

text \<open>What the library promises of its draws: a value between the two bounds.\<close>

definition random_contract :: "'s py_random \<Rightarrow> bool" where
  "random_contract R =
     ((\<forall>s a b. a \<le> b \<longrightarrow> a \<le> fst (rng_randint R s a b) \<and> fst (rng_randint R s a b) \<le> b) \<and>
      (\<forall>s a b. a \<le> b \<longrightarrow> a \<le> fst (rng_uniform R s a b) \<and> fst (rng_uniform R s a b) \<le> b))"

text \<open>One candle, read against the rule for a step of the walk.\<close>

definition candle_step_ok :: "candle \<Rightarrow> bool" where
  "candle_step_ok c =
     ((\<exists>delta. - 200 \<le> delta \<and> delta \<le> 200 \<and>
         candle_close c = max 100 (min 9900 (candle_open c + delta))) \<and>
      0 \<le> candle_high c - max (candle_open c) (candle_close c) \<and>
      candle_high c - max (candle_open c) (candle_close c) \<le> 100 \<and>
      0 \<le> min (candle_open c) (candle_close c) - candle_low c \<and>
      min (candle_open c) (candle_close c) - candle_low c \<le> 100 \<and>
      10000 \<le> candle_volume c \<and> candle_volume c \<le> 200000)"

text \<open>A candle without its time field.\<close>

definition candle_values :: "candle \<Rightarrow> int \<times> int \<times> int \<times> int \<times> real" where
  "candle_values c =
     (candle_open c, candle_high c, candle_low c, candle_close c, candle_volume c)"

text \<open>
  The four draws of one round of the walk, in the order the rule names them, from the
  generator state \<open>g\<close>: the move of the price, the offsets of high and low, the volume;
  and the state they leave.
\<close>

definition round_draws :: "'s py_random \<Rightarrow> 's \<Rightarrow> (int \<times> int \<times> int \<times> real) \<times> 's" where
  "round_draws R g =
     (let (delta, g1) = rng_randint R g (- 200) 200;
          (up, g2) = rng_randint R g1 0 100;
          (down, g3) = rng_randint R g2 0 100;
          (vol, g4) = rng_uniform R g3 10000 200000
      in ((delta, up, down, vol), g4))"

text \<open>The generator state after \<open>k\<close> rounds that started in state \<open>g\<close>.\<close>

fun draw_state :: "'s py_random \<Rightarrow> 's \<Rightarrow> nat \<Rightarrow> 's" where
  "draw_state R g 0 = g"
| "draw_state R g (Suc k) = draw_state R (snd (round_draws R g)) k"

text \<open>A candle built from its open and the four draws of its round, as the rule says.\<close>

definition candle_from_draws :: "candle \<Rightarrow> int \<times> int \<times> int \<times> real \<Rightarrow> bool" where
  "candle_from_draws c d =
     (case d of (delta, up, down, vol) \<Rightarrow>
        candle_close c = max 100 (min 9900 (candle_open c + delta)) \<and>
        candle_high c = max (candle_open c) (candle_close c) + up \<and>
        candle_low c = min (candle_open c) (candle_close c) - down \<and>
        candle_volume c = vol)"

text \<open>The ranges the rule gives for the four draws.\<close>

definition draws_in_range :: "int \<times> int \<times> int \<times> real \<Rightarrow> bool" where
  "draws_in_range d =
     (case d of (delta, up, down, vol) \<Rightarrow>
        - 200 \<le> delta \<and> delta \<le> 200 \<and> 0 \<le> up \<and> up \<le> 100 \<and> 0 \<le> down \<and> down \<le> 100 \<and>
        10000 \<le> vol \<and> vol \<le> 200000)"

text \<open>A small generator, to run the price walk on: a counter that steps by 7.\<close>

definition counter_random :: "nat py_random" where
  "counter_random =
     \<lparr> rng_seed = (\<lambda>n. nat \<bar>n\<bar>),
       rng_randint = (\<lambda>s a b. (a + int s mod (b - a + 1), s + 7)),
       rng_uniform = (\<lambda>s a b. (a + (b - a) * real (s mod 10) / 10, s + 7)) \<rparr>"

section \<open>Cache round trip\<close>

text \<open>
  Claim C2. A value stored with \<open>cache_set\<close> at time \<open>t\<close> and read back with \<open>cache_get\<close>
  under the same key at time \<open>t'\<close>, with no write in between, comes back unchanged while
  \<open>t' - t < ttl\<close>, and reads as absent (\<^verbatim>\<open>None\<close>) once \<open>t' - t \<ge> ttl\<close>.
\<close>

theorem cache_round_trip:
  "(t' - t < real_of_int ttl \<longrightarrow> cache_get ttl (cache_set c t k v) t' k = v) \<and>
   (real_of_int ttl \<le> t' - t \<longrightarrow> cache_get ttl (cache_set c t k v) t' k = PyNone)"
  by (simp add: cache_get_def cache_set_def)

theorem cache_round_trip_witness:
  "(1030 - 1000 < real_of_int 60 \<and>
      cache_get 60 (cache_set Map.empty 1000 ''hot:5'' (PyInt 7)) 1030 ''hot:5'' = PyInt 7) \<and>
   (real_of_int 60 \<le> 1060 - 1000 \<and>
      cache_get 60 (cache_set Map.empty 1000 ''hot:5'' (PyInt 7)) 1060 ''hot:5'' = PyNone)"
  using cache_round_trip [of 1030 1000 60 Map.empty "''hot:5''" "PyInt 7"]
        cache_round_trip [of 1060 1000 60 Map.empty "''hot:5''" "PyInt 7"]
  by simp

section \<open>Single market lookup\<close>

subsection \<open>Decimal rendering is injective\<close>

lemma of_char_digit_char: "d < 10 \<Longrightarrow> (of_char (digit_char d) :: nat) = 48 + d"
  by (simp add: digit_char_def)

lemma digits_value_str_nat: "digits_value (str_nat n) = n"
proof (induction n rule: str_nat.induct)
  case (1 n)
  show ?case
  proof (cases "n < 10")
    case True
    then show ?thesis
      by (subst str_nat.simps) (simp add: digits_value_def of_char_digit_char)
  next
    case False
    have "digits_value (str_nat n) = 10 * digits_value (str_nat (n div 10)) + n mod 10"
      using False by (subst str_nat.simps) (simp add: digits_value_def of_char_digit_char)
    with 1 False show ?thesis by simp
  qed
qed

lemma str_nat_inj: "str_nat a = str_nat b \<Longrightarrow> a = b"
  by (metis digits_value_str_nat)

lemma str_nat_not_Nil: "str_nat n \<noteq> []"
  by (subst str_nat.simps) simp

lemma hd_str_nat_not_minus: "hd (str_nat n) \<noteq> CHR ''-''"
proof (induction n rule: str_nat.induct)
  case (1 n)
  show ?case
  proof (cases "n < 10")
    case True
    then have "(of_char (hd (str_nat n)) :: nat) = 48 + n"
      by (subst str_nat.simps) (simp add: of_char_digit_char)
    then show ?thesis using True by auto
  next
    case False
    with 1 show ?thesis
      by (subst str_nat.simps) (simp add: str_nat_not_Nil)
  qed
qed

lemma str_int_inj: "str_int a = str_int b \<Longrightarrow> a = b"
proof -
  assume eq: "str_int a = str_int b"
  have minus: "CHR ''-'' # s \<noteq> str_nat n" for s n
    using hd_str_nat_not_minus [of n] by (metis list.sel(1))
  show "a = b"
  proof (cases "a < 0")
    case True
    then have "b < 0" using eq minus by (auto simp: str_int_def split: if_splits)
    with True eq have "nat (- a) = nat (- b)" by (simp add: str_int_def str_nat_inj)
    with True \<open>b < 0\<close> show ?thesis by simp
  next
    case False
    then have "\<not> b < 0" using eq minus [of _ "nat a"] by (auto simp: str_int_def split: if_splits)
    with False eq have "nat a = nat b" by (simp add: str_int_def str_nat_inj)
    with False \<open>\<not> b < 0\<close> show ?thesis by simp
  qed
qed

lemma market_cache_key_inj: "market_cache_key a = market_cache_key b \<Longrightarrow> a = b"
  by (simp add: market_cache_key_def str_int_inj)

subsection \<open>Only the lookup writes under its own keys\<close>

lemma markets_key_not_market_key:
  "market_cache_key mid \<noteq> markets_cache_key cat sort_by pg pg_size search"
  by (simp add: markets_cache_key_def market_cache_key_def)

lemma hot_key_not_market_key: "market_cache_key mid \<noteq> hot_cache_key limit"
  by (simp add: market_cache_key_def hot_cache_key_def)

lemma meta_key_not_market_key: "market_cache_key mid \<noteq> pending_meta_cache_key s"
  by (simp add: market_cache_key_def pending_meta_cache_key_def)

lemma market_entries_ok_empty: "market_entries_ok Map.empty"
  by (simp add: market_entries_ok_def)

lemma market_entries_ok_other_key:
  assumes "market_entries_ok c" and "\<forall>mid. market_cache_key mid \<noteq> k"
  shows "market_entries_ok (cache_set c t k v)"
  using assms by (simp add: market_entries_ok_def cache_set_def)

lemma market_entries_ok_market_key:
  assumes "market_entries_ok c" and "find (\<lambda>m. market_id m = mid) MOCK_MARKETS = Some m"
  shows "market_entries_ok (cache_set c t (market_cache_key mid) (PyMarket m))"
  unfolding market_entries_ok_def cache_set_def
proof (intro allI impI)
  fix mid' ts v
  assume h: "(c(market_cache_key mid \<mapsto> (t, PyMarket m))) (market_cache_key mid') = Some (ts, v)"
  show "\<exists>m. find (\<lambda>m. market_id m = mid') MOCK_MARKETS = Some m \<and> v = PyMarket m"
  proof (cases "mid' = mid")
    case True
    with h assms(2) show ?thesis by simp
  next
    case False
    then have "market_cache_key mid' \<noteq> market_cache_key mid"
      using market_cache_key_inj by blast
    with h have "c (market_cache_key mid') = Some (ts, v)" by simp
    with assms(1) show ?thesis unfolding market_entries_ok_def by blast
  qed
qed

lemma market_entries_ok_list_markets:
  "market_entries_ok c \<Longrightarrow>
   market_entries_ok (snd (list_markets ttl c t_get t_set cat sort_by pg pg_size search))"
  by (simp add: list_markets_def Let_def market_entries_ok_other_key markets_key_not_market_key)

lemma market_entries_ok_hot_markets:
  "market_entries_ok c \<Longrightarrow> market_entries_ok (snd (hot_markets ttl c t_get t_set limit))"
  by (simp add: hot_markets_def Let_def market_entries_ok_other_key hot_key_not_market_key)

lemma market_entries_ok_get_market:
  "market_entries_ok c \<Longrightarrow> market_entries_ok (snd (get_market ttl c t_get t_set mid))"
  by (simp add: get_market_def Let_def market_entries_ok_market_key split: option.splits)

lemma market_entries_ok_create:
  "market_entries_ok c \<Longrightarrow>
   market_entries_ok (snd (create_market_metadata gateway c t_id t_created t_set req))"
  by (simp add: create_market_metadata_def Let_def market_entries_ok_other_key
      meta_key_not_market_key)

lemma reachable_market_entries_ok: "reachable ttl gateway c \<Longrightarrow> market_entries_ok c"
  by (induction rule: reachable.induct)
    (simp_all add: market_entries_ok_empty market_entries_ok_list_markets
      market_entries_ok_hot_markets market_entries_ok_get_market market_entries_ok_create)

subsection \<open>The response\<close>

lemma cache_get_market_entry:
  assumes "market_entries_ok c" and "truthy (cache_get ttl c now (market_cache_key mid))"
  shows "\<exists>m. find (\<lambda>m. market_id m = mid) MOCK_MARKETS = Some m \<and>
             cache_get ttl c now (market_cache_key mid) = PyMarket m"
proof (cases "c (market_cache_key mid)")
  case None
  with assms(2) show ?thesis by (simp add: cache_get_def)
next
  case (Some e)
  obtain ts v where e: "e = (ts, v)" by (cases e)
  from assms(1) Some e obtain m where
    m: "find (\<lambda>m. market_id m = mid) MOCK_MARKETS = Some m" "v = PyMarket m"
    unfolding market_entries_ok_def by blast
  from assms(2) Some e have "cache_get ttl c now (market_cache_key mid) = v"
    by (simp add: cache_get_def split: if_splits)
  with m show ?thesis by simp
qed

lemma get_market_response:
  assumes "market_entries_ok c"
  shows "fst (get_market ttl c t_get t_set mid) =
           (case find (\<lambda>m. market_id m = mid) MOCK_MARKETS of
              None \<Rightarrow> Inl (HTTPException 404 (''Market '' @ str_int mid @ '' not found''))
            | Some m \<Rightarrow> Inr (PyMarket m))"
proof (cases "truthy (cache_get ttl c t_get (market_cache_key mid))")
  case True
  from cache_get_market_entry [OF assms True] obtain m where
    "find (\<lambda>m. market_id m = mid) MOCK_MARKETS = Some m"
    "cache_get ttl c t_get (market_cache_key mid) = PyMarket m" by blast
  then show ?thesis by (simp add: get_market_def)
next
  case False
  then show ?thesis by (simp add: get_market_def split: option.splits)
qed

lemma find_distinct_key:
  "distinct (map f xs) \<Longrightarrow> m \<in> set xs \<Longrightarrow> find (\<lambda>x. f x = f m) xs = Some m"
  by (induction xs) (auto simp: image_iff)

lemma seed_market_ids: "map market_id MOCK_MARKETS = [1, 2, 3, 4]"
  by (simp add: MOCK_MARKETS_def)

lemma find_seed_market:
  "m \<in> set MOCK_MARKETS \<Longrightarrow> find (\<lambda>x. market_id x = market_id m) MOCK_MARKETS = Some m"
  by (rule find_distinct_key) (simp_all add: seed_market_ids)

lemma find_no_seed_market:
  "mid \<notin> market_id ` set MOCK_MARKETS \<Longrightarrow> find (\<lambda>x. market_id x = mid) MOCK_MARKETS = None"
  by (auto simp: find_None_iff)

text \<open>
  Claim C6. In every cache state the service can reach, \<^verbatim>\<open>GET /markets/{id}\<close> with
  an id that no seed market has answers with the error 404 whose message spells the id
  out, and with the id of a seed market it answers with that seed record, whether the
  answer comes from the cache or from the seed list.
\<close>

theorem get_market_found_or_404:
  assumes "reachable ttl gateway c"
  shows "(mid \<notin> market_id ` set MOCK_MARKETS \<longrightarrow>
            fst (get_market ttl c t_get t_set mid) =
              Inl (HTTPException 404 (''Market '' @ str_int mid @ '' not found''))) \<and>
         (\<forall>m \<in> set MOCK_MARKETS. market_id m = mid \<longrightarrow>
            fst (get_market ttl c t_get t_set mid) = Inr (PyMarket m))"
proof (intro conjI impI ballI)
  assume "mid \<notin> market_id ` set MOCK_MARKETS"
  then show "fst (get_market ttl c t_get t_set mid) =
      Inl (HTTPException 404 (''Market '' @ str_int mid @ '' not found''))"
    by (simp add: get_market_response [OF reachable_market_entries_ok [OF assms]]
        find_no_seed_market)
next
  fix m assume "m \<in> set MOCK_MARKETS" "market_id m = mid"
  then have "find (\<lambda>x. market_id x = mid) MOCK_MARKETS = Some m"
    using find_seed_market by blast
  then show "fst (get_market ttl c t_get t_set mid) = Inr (PyMarket m)"
    by (simp add: get_market_response [OF reachable_market_entries_ok [OF assms]])
qed

lemma str_int_999: "str_int 999 = ''999''"
  by code_simp

theorem get_market_found_or_404_witness:
  "reachable 60 ''https://cloudflare-ipfs.com/ipfs/'' (snd (get_market 60 Map.empty 1000 1000 2)) \<and>
   999 \<notin> market_id ` set MOCK_MARKETS \<and>
   fst (get_market 60 (snd (get_market 60 Map.empty 1000 1000 2)) 1010 1010 999) =
     Inl (HTTPException 404 ''Market 999 not found'') \<and>
   MOCK_MARKETS ! 1 \<in> set MOCK_MARKETS \<and> market_id (MOCK_MARKETS ! 1) = 2 \<and>
   fst (get_market 60 (snd (get_market 60 Map.empty 1000 1000 2)) 1010 1010 2) =
     Inr (PyMarket (MOCK_MARKETS ! 1))"
proof -
  let ?gw = "''https://cloudflare-ipfs.com/ipfs/''"
  let ?c = "snd (get_market 60 Map.empty 1000 1000 2)"
  have r: "reachable 60 ?gw ?c"
    by (rule reachable.after_get_market) (rule reachable.start)
  have ids: "market_id ` set MOCK_MARKETS = {1, 2, 3, 4}"
    using seed_market_ids by (metis list.set_map list.simps(15) empty_set)
  have absent: "999 \<notin> market_id ` set MOCK_MARKETS"
    by (simp add: ids)
  have mem: "MOCK_MARKETS ! 1 \<in> set MOCK_MARKETS"
    by (simp add: MOCK_MARKETS_def)
  have id2: "market_id (MOCK_MARKETS ! 1) = 2"
    by (simp add: MOCK_MARKETS_def)
  from get_market_found_or_404 [OF r, of 999 1010 1010] absent
  have a: "fst (get_market 60 ?c 1010 1010 999) = Inl (HTTPException 404 ''Market 999 not found'')"
    by (simp add: str_int_999)
  from get_market_found_or_404 [OF r, of 2 1010 1010] mem id2
  have b: "fst (get_market 60 ?c 1010 1010 2) = Inr (PyMarket (MOCK_MARKETS ! 1))"
    by blast
  from r absent a mem id2 b show ?thesis by blast
qed

section \<open>A stored \<^verbatim>\<open>None\<close> reads as absent\<close>




section \<open>Image URL of a submitted market\<close>

text \<open>
  What the expression computes: without a non-empty \<^verbatim>\<open>image_ipfs_hash\<close> the result is
  empty whatever \<^verbatim>\<open>image_url\<close> is; with one, a non-empty \<^verbatim>\<open>image_url\<close> wins over the
  gateway address.
\<close>

lemma resolve_image_url_cases:
  "resolve_image_url gateway req =
     (case req_image_ipfs_hash req of
        None \<Rightarrow> []
      | Some h \<Rightarrow>
          if h = [] then []
          else (case req_image_url req of
                  None \<Rightarrow> gateway @ h
                | Some u \<Rightarrow> if u = [] then gateway @ h else u))"
  by (simp add: resolve_image_url_def truthy_str_def str_opt_def split: option.splits)

text \<open>
  Claim C1, at a request that carries an explicit \<^verbatim>\<open>image_url\<close> and no
  \<^verbatim>\<open>image_ipfs_hash\<close>: the record that \<^verbatim>\<open>POST /markets\<close> composes and stores has the
  empty string as its \<^verbatim>\<open>image_url\<close>, not the URL of the request.
\<close>

theorem create_market_metadata_loses_image_url:
  "cache_get 60
     (snd (create_market_metadata ''https://cloudflare-ipfs.com/ipfs/'' Map.empty
        1000.5 1000.6 1000.7
        \<lparr> req_question = ''Will it rain tomorrow?'', req_description = ''Weather'',
          req_category = ''CULTURE'', req_image_ipfs_hash = None,
          req_image_url = Some ''https://example.com/rain.png'', req_tags = [],
          req_source_url = None, req_resolution_rules = ''Rain gauge'' \<rparr>))
     1001 ''pending_meta:vp-1000'' =
   PyMeta \<lparr> meta_metadata_id = ''vp-1000'', meta_question = ''Will it rain tomorrow?'',
     meta_description = ''Weather'', meta_category = ''CULTURE'', meta_image_url = [],
     meta_tags = [], meta_source_url = None, meta_resolution_rules = ''Rain gauge'',
     meta_created_at = 1000.6 \<rparr>"
  by code_simp

section \<open>Synthetic trades\<close>

lemma length_get_market_trades:
  "length (get_market_trades now_at mid limit before_ts) = nat (min limit 20)"
  by (simp add: get_market_trades_def)

lemma nth_get_market_trades:
  "i < nat (min limit 20) \<Longrightarrow>
   get_market_trades now_at mid limit before_ts ! i = mock_trade now_at mid i"
  by (simp add: get_market_trades_def)

text \<open>
  Claim C9. For a limit that the route accepts, the trades handler returns
  \<open>min limit 20\<close> records; record \<open>i\<close>, counted from 0, carries the fixed trader,
  amounts, price and hash and the time \<open>30 * i\<close> seconds before the clock reading taken
  for it; and the answer is the same for every \<^verbatim>\<open>before_ts\<close>, given or not.
\<close>

theorem get_market_trades_shape:
  assumes "valid_trades_query limit"
  shows "int (length (get_market_trades now_at mid limit before_ts)) = min limit 20 \<and>
         (\<forall>i < length (get_market_trades now_at mid limit before_ts).
            get_market_trades now_at mid limit before_ts ! i =
              \<lparr> trade_market_id = mid, trader = ''0xabc123...'', is_buy_yes = True,
                usdc_in = 5000, shares_out = 7320.5, price_bps = 6840,
                tx_hash = ''0x'' @ replicate 64 (CHR ''a''),
                timestamp = now_at i - 30 * real i \<rparr>) \<and>
         get_market_trades now_at mid limit before_ts = get_market_trades now_at mid limit None"
proof (intro conjI allI impI)
  from assms show "int (length (get_market_trades now_at mid limit before_ts)) = min limit 20"
    by (simp add: length_get_market_trades valid_trades_query_def)
next
  fix i assume "i < length (get_market_trades now_at mid limit before_ts)"
  then have "i < nat (min limit 20)" by (simp add: length_get_market_trades)
  then show "get_market_trades now_at mid limit before_ts ! i =
              \<lparr> trade_market_id = mid, trader = ''0xabc123...'', is_buy_yes = True,
                usdc_in = 5000, shares_out = 7320.5, price_bps = 6840,
                tx_hash = ''0x'' @ replicate 64 (CHR ''a''),
                timestamp = now_at i - 30 * real i \<rparr>"
    by (simp add: nth_get_market_trades mock_trade_def)
next
  show "get_market_trades now_at mid limit before_ts = get_market_trades now_at mid limit None"
    by (simp add: get_market_trades_def)
qed

theorem get_market_trades_shape_witness:
  "valid_trades_query 50 \<and>
   int (length (get_market_trades (\<lambda>i. 1000 + real i / 1000) 7 50 (Some 900))) = min 50 20 \<and>
   (2::nat) < length (get_market_trades (\<lambda>i. 1000 + real i / 1000) 7 50 (Some 900)) \<and>
   timestamp (get_market_trades (\<lambda>i. 1000 + real i / 1000) 7 50 (Some 900) ! 2) = 940.002 \<and>
   get_market_trades (\<lambda>i. 1000 + real i / 1000) 7 50 (Some 900) =
     get_market_trades (\<lambda>i. 1000 + real i / 1000) 7 50 None"
proof -
  let ?ts = "get_market_trades (\<lambda>i. 1000 + real i / 1000) 7 50 (Some 900)"
  have v: "valid_trades_query 50" by (simp add: valid_trades_query_def)
  note t = get_market_trades_shape [OF v, of "\<lambda>i. 1000 + real i / 1000" 7 "Some 900"]
  from t have l: "int (length ?ts) = min 50 20" by (rule conjunct1)
  then have len: "(2::nat) < length ?ts" by simp
  from t have "\<forall>i < length ?ts. ?ts ! i =
      \<lparr> trade_market_id = 7, trader = ''0xabc123...'', is_buy_yes = True,
        usdc_in = 5000, shares_out = 7320.5, price_bps = 6840,
        tx_hash = ''0x'' @ replicate 64 (CHR ''a''),
        timestamp = 1000 + real i / 1000 - 30 * real i \<rparr>"
    by (rule conjunct2 [THEN conjunct1])
  with len have "?ts ! 2 =
      \<lparr> trade_market_id = 7, trader = ''0xabc123...'', is_buy_yes = True,
        usdc_in = 5000, shares_out = 7320.5, price_bps = 6840,
        tx_hash = ''0x'' @ replicate 64 (CHR ''a''),
        timestamp = 1000 + real (2::nat) / 1000 - 30 * real (2::nat) \<rparr>"
    by blast
  then have ts: "timestamp (?ts ! 2) = 940.002" by simp
  from t have e: "?ts = get_market_trades (\<lambda>i. 1000 + real i / 1000) 7 50 None"
    by (rule conjunct2 [THEN conjunct2])
  from v l len ts e show ?thesis by blast
qed

section \<open>Synthetic price history\<close>

subsection \<open>The walk does not depend on the clock\<close>

lemma candle_loop_Suc:
  "candle_loop R now step (Suc j) price g =
     (fst (candle_step R now step (int (Suc j)) price g) #
        fst (candle_loop R now step j (fst (snd (candle_step R now step (int (Suc j)) price g)))
               (snd (snd (candle_step R now step (int (Suc j)) price g)))),
      snd (candle_loop R now step j (fst (snd (candle_step R now step (int (Suc j)) price g)))
               (snd (snd (candle_step R now step (int (Suc j)) price g)))))"
  by (simp add: case_prod_beta Let_def)

lemma candle_step_values:
  "candle_values (fst (candle_step R now step i price g)) =
     candle_values (fst (candle_step R now' step' i' price g))"
  by (simp add: candle_step_def candle_values_def Let_def case_prod_beta)

lemma candle_step_rest:
  "snd (candle_step R now step i price g) = snd (candle_step R now' step' i' price g)"
  by (simp add: candle_step_def Let_def case_prod_beta)

lemma candle_loop_values:
  "map candle_values (fst (candle_loop R now step n price g)) =
     map candle_values (fst (candle_loop R now' step' n price g)) \<and>
   snd (candle_loop R now step n price g) = snd (candle_loop R now' step' n price g)"
proof (induction n arbitrary: price g)
  case 0
  show ?case by simp
next
  case (Suc n)
  let ?s = "candle_step R now step (int (Suc n)) price g"
  let ?s' = "candle_step R now' step' (int (Suc n)) price g"
  have r: "snd ?s' = snd ?s" by (rule candle_step_rest)
  have v: "candle_values (fst ?s) = candle_values (fst ?s')" by (rule candle_step_values)
  let ?r = "candle_loop R now step n (fst (snd ?s)) (snd (snd ?s))"
  let ?r' = "candle_loop R now' step' n (fst (snd ?s)) (snd (snd ?s))"
  have L: "candle_loop R now step (Suc n) price g = (fst ?s # fst ?r, snd ?r)"
    by (rule candle_loop_Suc)
  have L': "candle_loop R now' step' (Suc n) price g = (fst ?s' # fst ?r', snd ?r')"
    by (simp only: candle_loop_Suc r)
  from Suc.IH [of "fst (snd ?s)" "snd (snd ?s)"]
  have ih: "map candle_values (fst ?r) = map candle_values (fst ?r')" "snd ?r = snd ?r'"
    by blast+
  show ?case
    by (simp only: L L' fst_conv snd_conv list.map v ih simp_thms)
qed

text \<open>
  Claim C7. Two price-history requests for the same market and limit give candle
  sequences that agree in open, high, low, close and volume, whatever the clock reads,
  whatever interval is asked for and whatever state the generator was left in: the
  handler seeds the generator with the market id before its first draw.
\<close>

theorem price_history_reproducible:
  "map candle_values (ph_candles (fst (get_price_history R g1 t1 mid interval1 limit))) =
   map candle_values (ph_candles (fst (get_price_history R g2 t2 mid interval2 limit)))"
  using candle_loop_values [of R "int_of_float t1" "interval_step interval1" "nat limit" 5000
      "rng_seed R mid" "int_of_float t2" "interval_step interval2"]
  by (simp add: get_price_history_def Let_def case_prod_beta)

subsection \<open>The shape of the walk\<close>

declare candle_loop.simps(2) [simp del]

lemma length_candle_loop: "length (fst (candle_loop R now step n price g)) = n"
  by (induction n arbitrary: price g) (simp_all add: candle_loop_Suc)

lemma candle_step_time: "candle_time (fst (candle_step R now step i price g)) = now - i * step"
  by (simp add: candle_step_def Let_def case_prod_beta)

lemma candle_step_open: "candle_open (fst (candle_step R now step i price g)) = price"
  by (simp add: candle_step_def Let_def case_prod_beta)

lemma candle_step_price:
  "fst (snd (candle_step R now step i price g)) =
     candle_close (fst (candle_step R now step i price g))"
  by (simp add: candle_step_def Let_def case_prod_beta)

lemma candle_step_close:
  "candle_close (fst (candle_step R now step i price g)) =
     max 100 (min 9900 (candle_open (fst (candle_step R now step i price g)) +
       fst (rng_randint R g (- 200) 200)))"
  by (simp add: candle_step_def Let_def case_prod_beta)

lemma candle_step_high:
  "\<exists>s. candle_high (fst (candle_step R now step i price g)) =
     max (candle_open (fst (candle_step R now step i price g)))
         (candle_close (fst (candle_step R now step i price g))) + fst (rng_randint R s 0 100)"
  by (simp add: candle_step_def Let_def case_prod_beta) blast

lemma candle_step_low:
  "\<exists>s. candle_low (fst (candle_step R now step i price g)) =
     min (candle_open (fst (candle_step R now step i price g)))
         (candle_close (fst (candle_step R now step i price g))) - fst (rng_randint R s 0 100)"
  by (simp add: candle_step_def Let_def case_prod_beta) blast

lemma candle_step_volume:
  "\<exists>s. candle_volume (fst (candle_step R now step i price g)) =
     fst (rng_uniform R s 10000 200000)"
  by (simp add: candle_step_def Let_def case_prod_beta) blast

lemma candle_step_follows_rule:
  assumes "random_contract R"
  shows "candle_step_ok (fst (candle_step R now step i price g))"
proof -
  let ?c = "fst (candle_step R now step i price g)"
  from assms have ri: "a \<le> b \<Longrightarrow> a \<le> fst (rng_randint R s a b) \<and> fst (rng_randint R s a b) \<le> b"
    for s a b unfolding random_contract_def by blast
  from assms have ru: "a \<le> b \<Longrightarrow> a \<le> fst (rng_uniform R s a b) \<and> fst (rng_uniform R s a b) \<le> b"
    for s a b unfolding random_contract_def by blast
  have d: "- 200 \<le> fst (rng_randint R g (- 200) 200) \<and> fst (rng_randint R g (- 200) 200) \<le> 200"
    by (rule ri) simp
  have cl: "\<exists>delta. - 200 \<le> delta \<and> delta \<le> 200 \<and>
          candle_close ?c = max 100 (min 9900 (candle_open ?c + delta))"
    using d candle_step_close [of R now step i price g] by blast
  have r100: "0 \<le> fst (rng_randint R s 0 100) \<and> fst (rng_randint R s 0 100) \<le> 100" for s
    by (rule ri) simp
  have rvol: "10000 \<le> fst (rng_uniform R s 10000 200000) \<and>
              fst (rng_uniform R s 10000 200000) \<le> 200000" for s
    by (rule ru) simp
  obtain s1 where "candle_high ?c =
      max (candle_open ?c) (candle_close ?c) + fst (rng_randint R s1 0 100)"
    using candle_step_high [of R now step i price g] by blast
  with r100 [of s1] have hi: "0 \<le> candle_high ?c - max (candle_open ?c) (candle_close ?c) \<and>
      candle_high ?c - max (candle_open ?c) (candle_close ?c) \<le> 100"
    by linarith
  obtain s2 where "candle_low ?c =
      min (candle_open ?c) (candle_close ?c) - fst (rng_randint R s2 0 100)"
    using candle_step_low [of R now step i price g] by blast
  with r100 [of s2] have lo: "0 \<le> min (candle_open ?c) (candle_close ?c) - candle_low ?c \<and>
      min (candle_open ?c) (candle_close ?c) - candle_low ?c \<le> 100"
    by linarith
  obtain s3 where "candle_volume ?c = fst (rng_uniform R s3 10000 200000)"
    using candle_step_volume [of R now step i price g] by blast
  with rvol [of s3] have vol: "10000 \<le> candle_volume ?c \<and> candle_volume ?c \<le> 200000"
    by simp
  from cl hi lo vol show ?thesis unfolding candle_step_ok_def by blast
qed

lemma candle_loop_time:
  "k < n \<Longrightarrow>
   candle_time (fst (candle_loop R now step n price g) ! k) = now - (int n - int k) * step"
proof (induction n arbitrary: k price g)
  case 0
  then show ?case by simp
next
  case (Suc n)
  show ?case
  proof (cases k)
    case 0
    then show ?thesis by (simp add: candle_loop_Suc candle_step_time)
  next
    case (Suc k')
    with Suc.prems have "k' < n" by simp
    from Suc.IH [OF this] Suc show ?thesis by (simp add: candle_loop_Suc)
  qed
qed

lemma candle_loop_first_open:
  "0 < n \<Longrightarrow> candle_open (fst (candle_loop R now step n price g) ! 0) = price"
  by (cases n) (simp_all add: candle_loop_Suc candle_step_open)

lemma candle_loop_chain:
  "Suc k < n \<Longrightarrow>
   candle_open (fst (candle_loop R now step n price g) ! Suc k) =
     candle_close (fst (candle_loop R now step n price g) ! k)"
proof (induction n arbitrary: k price g)
  case 0
  then show ?case by simp
next
  case (Suc n)
  show ?case
  proof (cases k)
    case 0
    with Suc.prems have "0 < n" by simp
    with 0 show ?thesis
      by (simp add: candle_loop_Suc candle_loop_first_open candle_step_price)
  next
    case (Suc k')
    with Suc.prems have "Suc k' < n" by simp
    from Suc.IH [OF this] Suc show ?thesis by (simp add: candle_loop_Suc)
  qed
qed

lemma candle_loop_follows_rule:
  assumes "random_contract R"
  shows "k < n \<Longrightarrow> candle_step_ok (fst (candle_loop R now step n price g) ! k)"
proof (induction n arbitrary: k price g)
  case 0
  then show ?case by simp
next
  case (Suc n)
  show ?case
  proof (cases k)
    case 0
    then show ?thesis by (simp add: candle_loop_Suc candle_step_follows_rule [OF assms])
  next
    case (Suc k')
    with Suc.prems have "k' < n" by simp
    from Suc.IH [OF this] Suc show ?thesis by (simp add: candle_loop_Suc)
  qed
qed

lemma interval_step_table:
  "interval_step interval =
     (if interval = ''1m'' then 60 else if interval = ''5m'' then 300
      else if interval = ''15m'' then 900 else if interval = ''1h'' then 3600
      else if interval = ''4h'' then 14400 else if interval = ''1d'' then 86400 else 3600)"
  by (simp add: interval_step_def intervals_def)

lemma ph_candles_get_price_history:
  "ph_candles (fst (get_price_history R g t mid interval limit)) =
     fst (candle_loop R (int_of_float t) (interval_step interval) (nat limit) 5000 (rng_seed R mid))"
  by (simp add: get_price_history_def Let_def case_prod_beta)

lemma candle_step_from_draws:
  "candle_from_draws (fst (candle_step R now step i price g)) (fst (round_draws R g))"
  by (simp add: candle_step_def round_draws_def candle_from_draws_def Let_def case_prod_beta)

lemma candle_step_state:
  "snd (snd (candle_step R now step i price g)) = snd (round_draws R g)"
  by (simp add: candle_step_def round_draws_def Let_def case_prod_beta)

lemma round_draws_in_range:
  assumes "random_contract R"
  shows "draws_in_range (fst (round_draws R g))"
proof -
  from assms have ri: "a \<le> b \<Longrightarrow> a \<le> fst (rng_randint R s a b) \<and> fst (rng_randint R s a b) \<le> b"
    for s a b unfolding random_contract_def by blast
  from assms have ru: "a \<le> b \<Longrightarrow> a \<le> fst (rng_uniform R s a b) \<and> fst (rng_uniform R s a b) \<le> b"
    for s a b unfolding random_contract_def by blast
  have d: "- 200 \<le> fst (rng_randint R s (- 200) 200) \<and> fst (rng_randint R s (- 200) 200) \<le> 200" for s
    by (rule ri) simp
  have r100: "0 \<le> fst (rng_randint R s 0 100) \<and> fst (rng_randint R s 0 100) \<le> 100" for s
    by (rule ri) simp
  have rvol: "10000 \<le> fst (rng_uniform R s 10000 200000) \<and>
              fst (rng_uniform R s 10000 200000) \<le> 200000" for s
    by (rule ru) simp
  show ?thesis
    by (simp add: draws_in_range_def round_draws_def Let_def case_prod_beta d r100 rvol)
qed

lemma candle_loop_from_draws:
  "k < n \<Longrightarrow>
   candle_from_draws (fst (candle_loop R now step n price g) ! k)
     (fst (round_draws R (draw_state R g k)))"
proof (induction n arbitrary: k price g)
  case 0
  then show ?case by simp
next
  case (Suc n)
  show ?case
  proof (cases k)
    case 0
    then show ?thesis by (simp add: candle_loop_Suc candle_step_from_draws)
  next
    case (Suc k')
    with Suc.prems have "k' < n" by simp
    from Suc.IH [OF this] Suc show ?thesis by (simp add: candle_loop_Suc candle_step_state)
  qed
qed

lemma candle_loop_last_state:
  "snd (candle_loop R now step n price g) = draw_state R g n"
  by (induction n arbitrary: price g) (simp_all add: candle_loop_Suc candle_step_state)

lemma snd_get_price_history:
  "snd (get_price_history R g t mid interval limit) =
     snd (candle_loop R (int_of_float t) (interval_step interval) (nat limit) 5000 (rng_seed R mid))"
  by (simp add: get_price_history_def Let_def case_prod_beta)

text \<open>
  Claim C8. The generator is seeded with the market id, and round \<open>k\<close> of the walk
  (from 0) takes its four draws from the state that \<open>k\<close> earlier rounds have left: a
  move from \<^verbatim>\<open>randint(-200, 200)\<close>, two offsets from \<^verbatim>\<open>randint(0, 100)\<close> and a volume
  from \<^verbatim>\<open>uniform(10000, 200000)\<close>. The candles of a price-history request are \<open>limit\<close>
  many; candle \<open>k\<close> (oldest first) carries the time \<open>now - (limit - k) * step\<close>; the
  first opens at 5000 and each later one opens at the close before it; the close of
  candle \<open>k\<close> is its open moved by the first draw of round \<open>k\<close> and clamped to
  \<open>[100, 9900]\<close>, its high is the larger of open and close plus the second draw, its
  low the smaller minus the third, its volume the fourth; with draws that stay between
  their bounds the four lie in \<open>[-200, 200]\<close>, \<open>[0, 100]\<close>, \<open>[0, 100]\<close> and
  \<open>[10000, 200000]\<close>; the generator is left in the state after \<open>limit\<close> rounds; the
  step is the table entry of the interval, and 3600 for an interval the table does not
  have.
\<close>

theorem price_history_walk:
  assumes "random_contract R"
  shows "length (ph_candles (fst (get_price_history R g t mid interval limit))) = nat limit \<and>
    (\<forall>k < nat limit.
       candle_time (ph_candles (fst (get_price_history R g t mid interval limit)) ! k) =
         int_of_float t - (int (nat limit) - int k) * interval_step interval) \<and>
    (0 < nat limit \<longrightarrow>
       candle_open (ph_candles (fst (get_price_history R g t mid interval limit)) ! 0) = 5000) \<and>
    (\<forall>k. Suc k < nat limit \<longrightarrow>
       candle_open (ph_candles (fst (get_price_history R g t mid interval limit)) ! Suc k) =
         candle_close (ph_candles (fst (get_price_history R g t mid interval limit)) ! k)) \<and>
    (\<forall>k < nat limit.
       candle_step_ok (ph_candles (fst (get_price_history R g t mid interval limit)) ! k)) \<and>
    (\<forall>k < nat limit.
       candle_from_draws (ph_candles (fst (get_price_history R g t mid interval limit)) ! k)
         (fst (round_draws R (draw_state R (rng_seed R mid) k)))) \<and>
    (\<forall>k < nat limit. draws_in_range (fst (round_draws R (draw_state R (rng_seed R mid) k)))) \<and>
    snd (get_price_history R g t mid interval limit) = draw_state R (rng_seed R mid) (nat limit) \<and>
    interval_step interval =
     (if interval = ''1m'' then 60 else if interval = ''5m'' then 300
      else if interval = ''15m'' then 900 else if interval = ''1h'' then 3600
      else if interval = ''4h'' then 14400 else if interval = ''1d'' then 86400 else 3600)"
proof (intro conjI allI impI)
  let ?cs = "ph_candles (fst (get_price_history R g t mid interval limit))"
  show "length ?cs = nat limit"
    by (simp add: ph_candles_get_price_history length_candle_loop)
  show "candle_time (?cs ! k) = int_of_float t - (int (nat limit) - int k) * interval_step interval"
    if "k < nat limit" for k
    using that by (simp only: ph_candles_get_price_history candle_loop_time)
  show "candle_open (?cs ! 0) = 5000" if "0 < nat limit"
    using that by (simp only: ph_candles_get_price_history candle_loop_first_open)
  show "candle_open (?cs ! Suc k) = candle_close (?cs ! k)" if "Suc k < nat limit" for k
    using that by (simp only: ph_candles_get_price_history candle_loop_chain)
  show "candle_step_ok (?cs ! k)" if "k < nat limit" for k
    using that by (simp only: ph_candles_get_price_history candle_loop_follows_rule [OF assms])
  show "candle_from_draws (?cs ! k) (fst (round_draws R (draw_state R (rng_seed R mid) k)))"
    if "k < nat limit" for k
    using that by (simp only: ph_candles_get_price_history candle_loop_from_draws)
  show "draws_in_range (fst (round_draws R (draw_state R (rng_seed R mid) k)))" for k
    by (rule round_draws_in_range [OF assms])
  show "snd (get_price_history R g t mid interval limit) =
          draw_state R (rng_seed R mid) (nat limit)"
    by (simp only: snd_get_price_history candle_loop_last_state)
  show "interval_step interval =
     (if interval = ''1m'' then 60 else if interval = ''5m'' then 300
      else if interval = ''15m'' then 900 else if interval = ''1h'' then 3600
      else if interval = ''4h'' then 14400 else if interval = ''1d'' then 86400 else 3600)"
    by (rule interval_step_table)
qed

lemma counter_random_contract: "random_contract counter_random"
proof -
  have i: "a \<le> a + int s mod (b - a + 1) \<and> a + int s mod (b - a + 1) \<le> b"
    if "a \<le> b" for a b :: int and s :: nat
  proof -
    from that have "0 < b - a + 1" by simp
    then have "0 \<le> int s mod (b - a + 1)" "int s mod (b - a + 1) < b - a + 1"
      by (rule pos_mod_sign, rule pos_mod_bound)
    then show ?thesis by linarith
  qed
  have u: "a \<le> a + (b - a) * real (s mod 10) / 10 \<and> a + (b - a) * real (s mod 10) / 10 \<le> b"
    if "a \<le> b" for a b :: real and s :: nat
  proof -
    have "s mod 10 < 10" by simp
    then have x: "0 \<le> real (s mod 10) / 10" "real (s mod 10) / 10 \<le> 1" by simp_all
    from that have "0 \<le> b - a" by simp
    with x have "0 \<le> (b - a) * (real (s mod 10) / 10)"
      by simp
    moreover from x \<open>0 \<le> b - a\<close> have "(b - a) * (real (s mod 10) / 10) \<le> (b - a) * 1"
      by (intro mult_left_mono)
    ultimately show ?thesis by simp
  qed
  from i u show ?thesis by (simp add: random_contract_def counter_random_def)
qed

lemma counter_random_rounds:
  "fst (round_draws counter_random (draw_state counter_random (rng_seed counter_random 2) 0)) =
     (- 198, 9, 16, 67000)"
  "fst (round_draws counter_random (draw_state counter_random (rng_seed counter_random 2) (Suc 0))) =
     (- 170, 37, 44, 29000)"
  "draw_state counter_random (rng_seed counter_random 2) 3 = 86"
  by (simp_all add: round_draws_def counter_random_def Let_def numeral_3_eq_3)

theorem price_history_walk_witness:
  "random_contract counter_random \<and>
   length (ph_candles (fst (get_price_history counter_random 0 1000.5 2 ''5m'' 3))) = 3 \<and>
   candle_time (ph_candles (fst (get_price_history counter_random 0 1000.5 2 ''5m'' 3)) ! 0) = 100 \<and>
   candle_time (ph_candles (fst (get_price_history counter_random 0 1000.5 2 ''5m'' 3)) ! 2) = 700 \<and>
   candle_open (ph_candles (fst (get_price_history counter_random 0 1000.5 2 ''5m'' 3)) ! 0) = 5000 \<and>
   candle_open (ph_candles (fst (get_price_history counter_random 0 1000.5 2 ''5m'' 3)) ! Suc 0) =
     candle_close (ph_candles (fst (get_price_history counter_random 0 1000.5 2 ''5m'' 3)) ! 0) \<and>
   candle_step_ok (ph_candles (fst (get_price_history counter_random 0 1000.5 2 ''5m'' 3)) ! 0) \<and>
   candle_values (ph_candles (fst (get_price_history counter_random 0 1000.5 2 ''5m'' 3)) ! 0) =
     (5000, 5009, 4786, 4802, 67000) \<and>
   candle_values (ph_candles (fst (get_price_history counter_random 0 1000.5 2 ''5m'' 3)) ! Suc 0) =
     (4802, 4839, 4588, 4632, 29000) \<and>
   draws_in_range (- 198, 9, 16, 67000) \<and>
   snd (get_price_history counter_random 0 1000.5 2 ''5m'' 3) = 86 \<and>
   interval_step ''5m'' = 300"
proof -
  let ?cs = "ph_candles (fst (get_price_history counter_random 0 1000.5 2 ''5m'' 3))"
  let ?g = "\<lambda>k. fst (round_draws counter_random (draw_state counter_random (rng_seed counter_random 2) k))"
  note w = price_history_walk [OF counter_random_contract, of 0 "1000.5" 2 "''5m''" 3]
  from w have len: "length ?cs = 3" by simp
  from w have st: "interval_step ''5m'' = 300" by simp
  from w have "\<forall>k < nat 3. candle_time (?cs ! k) =
      int_of_float 1000.5 - (int (nat 3) - int k) * interval_step ''5m''"
    by (rule conjunct2 [THEN conjunct1])
  then have tm: "candle_time (?cs ! k) = int_of_float 1000.5 - (3 - int k) * 300" if "k < 3" for k
    using that st by simp
  have t0: "candle_time (?cs ! 0) = 100" using tm [of 0] by (simp add: int_of_float_def)
  have t2: "candle_time (?cs ! 2) = 700" using tm [of 2] by (simp add: int_of_float_def)
  from w have "0 < nat 3 \<longrightarrow> candle_open (?cs ! 0) = 5000"
    by (rule conjunct2 [THEN conjunct2, THEN conjunct1])
  then have op: "candle_open (?cs ! 0) = 5000" by simp
  from w have "\<forall>k. Suc k < nat 3 \<longrightarrow> candle_open (?cs ! Suc k) = candle_close (?cs ! k)"
    by (rule conjunct2 [THEN conjunct2, THEN conjunct2, THEN conjunct1])
  then have ch: "candle_open (?cs ! Suc 0) = candle_close (?cs ! 0)" by simp
  from w have "\<forall>k < nat 3. candle_step_ok (?cs ! k)"
    by (rule conjunct2 [THEN conjunct2, THEN conjunct2, THEN conjunct2, THEN conjunct1])
  then have ok: "candle_step_ok (?cs ! 0)" by simp
  from w have fd: "\<forall>k < nat 3. candle_from_draws (?cs ! k) (?g k)"
    by (rule conjunct2 [THEN conjunct2, THEN conjunct2, THEN conjunct2, THEN conjunct2,
          THEN conjunct1])
  have "candle_from_draws (?cs ! 0) (?g 0)" by (rule fd [rule_format]) simp
  then have "candle_from_draws (?cs ! 0) (- 198, 9, 16, 67000)"
    by (simp only: counter_random_rounds)
  with op have v0: "candle_values (?cs ! 0) = (5000, 5009, 4786, 4802, 67000)"
    by (simp add: candle_from_draws_def candle_values_def)
  then have "candle_close (?cs ! 0) = 4802" by (simp add: candle_values_def)
  with ch have op1: "candle_open (?cs ! Suc 0) = 4802" by simp
  have "candle_from_draws (?cs ! Suc 0) (?g (Suc 0))" by (rule fd [rule_format]) simp
  then have "candle_from_draws (?cs ! Suc 0) (- 170, 37, 44, 29000)"
    by (simp only: counter_random_rounds)
  with op1 have v1: "candle_values (?cs ! Suc 0) = (4802, 4839, 4588, 4632, 29000)"
    by (simp add: candle_from_draws_def candle_values_def)
  from w have dr: "\<forall>k < nat 3. draws_in_range (?g k)"
    by (rule conjunct2 [THEN conjunct2, THEN conjunct2, THEN conjunct2, THEN conjunct2,
          THEN conjunct2, THEN conjunct1])
  have "draws_in_range (?g 0)" by (rule dr [rule_format]) simp
  then have rg: "draws_in_range (- 198, 9, 16, 67000)" by (simp only: counter_random_rounds)
  from w have "snd (get_price_history counter_random 0 1000.5 2 ''5m'' 3) =
      draw_state counter_random (rng_seed counter_random 2) (nat 3)"
    by (rule conjunct2 [THEN conjunct2, THEN conjunct2, THEN conjunct2, THEN conjunct2,
          THEN conjunct2, THEN conjunct2, THEN conjunct1])
  moreover have "nat 3 = (3::nat)" by simp
  ultimately have fin: "snd (get_price_history counter_random 0 1000.5 2 ''5m'' 3) = 86"
    by (simp only: counter_random_rounds)
  from counter_random_contract len t0 t2 op ch ok v0 v1 rg fin st show ?thesis by blast
qed

section \<open>Market listing\<close>

text \<open>
  When the cache does not answer, the handler's response is \<open>list_markets_compute\<close>: its
  \<^verbatim>\<open>total_count\<close> counts the seed markets that pass the filters, its page has the
  length the pagination rule gives, and its markets stand in descending order of the
  sort field, equal values in seed order. When the cache answers, the response is the
  stored value, whatever request stored it.
\<close>

lemma list_markets_miss:
  assumes "\<not> truthy (cache_get ttl c t_get (markets_cache_key cat sort_by pg pg_size search))"
  shows "fst (list_markets ttl c t_get t_set cat sort_by pg pg_size search) =
           PySearchResult (list_markets_compute cat sort_by pg pg_size search)"
  using assms by (simp add: list_markets_def Let_def)

lemma list_markets_hit:
  assumes "truthy (cache_get ttl c t_get (markets_cache_key cat sort_by pg pg_size search))"
  shows "list_markets ttl c t_get t_set cat sort_by pg pg_size search =
           (cache_get ttl c t_get (markets_cache_key cat sort_by pg pg_size search), c)"
  using assms by (simp add: list_markets_def Let_def)

subsection \<open>The total count\<close>

lemma filters_as_predicate:
  "filter_search search (filter_category cat ms) = filter (passes_filters cat search) ms"
proof -
  have cm: "category_matches c = (\<lambda>m. upper (category m) = upper c)" for c
    by (rule ext) (simp add: category_matches_def)
  have sm: "search_matches s = (\<lambda>m. str_in (lower s) (lower (question m)) \<or>
              str_in (lower s) (lower (str_list (tags m))))" for s
    by (rule ext) (simp add: search_matches_def Let_def)
  have "filter_category cat ms =
          filter (\<lambda>m. case cat of None \<Rightarrow> True | Some c \<Rightarrow> c = [] \<or> upper (category m) = upper c) ms"
    by (simp add: filter_category_def cm split: option.splits)
  moreover have "filter_search search xs =
          filter (\<lambda>m. case search of None \<Rightarrow> True
             | Some s \<Rightarrow> s = [] \<or> str_in (lower s) (lower (question m)) \<or>
                        str_in (lower s) (lower (str_list (tags m)))) xs" for xs
    by (simp add: filter_search_def sm split: option.splits)
  moreover have "passes_filters cat search =
          (\<lambda>m. (case cat of None \<Rightarrow> True | Some c \<Rightarrow> c = [] \<or> upper (category m) = upper c) \<and>
               (case search of None \<Rightarrow> True
                | Some s \<Rightarrow> s = [] \<or> str_in (lower s) (lower (question m)) \<or>
                           str_in (lower s) (lower (str_list (tags m)))))"
    by (rule ext) (simp add: passes_filters_def)
  ultimately show ?thesis
    by (simp only: filter_filter)
qed

lemma length_sort_reverse: "length (sort_reverse key xs) = length xs"
  by (simp add: sort_reverse_def)

lemma list_markets_compute_total_count:
  "total_count (list_markets_compute cat sort_by pg pg_size search) =
     int (length (filter (passes_filters cat search) MOCK_MARKETS))"
  by (simp add: list_markets_compute_def Let_def length_sort_reverse filters_as_predicate)

subsection \<open>The length of a page\<close>

lemma length_py_slice_page:
  assumes "0 \<le> start" and "0 \<le> n"
  shows "int (length (py_slice xs start (start + n))) =
           min n (max 0 (int (length xs) - start))"
  using assms by (simp add: py_slice_def slice_bound_def Let_def)

lemma list_markets_compute_page_length:
  assumes "valid_list_query pg pg_size"
  shows "int (length (markets (list_markets_compute cat sort_by pg pg_size search))) =
           expected_page_length (total_count (list_markets_compute cat sort_by pg pg_size search))
             pg pg_size"
proof -
  from assms have "0 \<le> (pg - 1) * pg_size" "0 \<le> pg_size"
    by (simp_all add: valid_list_query_def)
  then show ?thesis
    by (simp add: list_markets_compute_def Let_def expected_page_length_def length_py_slice_page)
qed

subsection \<open>The order of a page\<close>

lemma sorted_wrt_before_in:
  "distinct xs \<Longrightarrow> sorted_wrt (before_in xs) xs"
proof (induction xs)
  case Nil
  show ?case by simp
next
  case (Cons x xs)
  then have "sorted_wrt (before_in xs) xs" and nx: "x \<notin> set xs" by simp_all
  then have tl: "sorted_wrt (before_in (x # xs)) xs"
    by (rule_tac sorted_wrt_mono_rel [of xs "before_in xs"]) auto
  have hd: "\<forall>y \<in> set xs. before_in (x # xs) x y" by simp
  from hd tl show ?case by (simp only: sorted_wrt.simps simp_thms)
qed

lemma seed_markets_distinct: "distinct MOCK_MARKETS"
proof -
  have "distinct (map market_id MOCK_MARKETS)" by (simp add: seed_market_ids)
  then show ?thesis by (simp only: distinct_map)
qed

lemma filter_in_seed_order:
  "sorted_wrt (before_in MOCK_MARKETS) (filter P MOCK_MARKETS)"
  by (rule sorted_wrt_filter) (rule sorted_wrt_before_in [OF seed_markets_distinct])

lemma sort_reverse_descending:
  "sorted_wrt (\<lambda>a b. key b \<le> key a) (sort_reverse key xs)"
proof -
  have "sorted (map key (sort_key key (rev xs)))" by (rule sorted_sort_key)
  then have "sorted_wrt (\<lambda>a b. key a \<le> key b) (sort_key key (rev xs))"
    by (simp add: sorted_map)
  then show ?thesis by (simp add: sort_reverse_def sorted_wrt_rev)
qed

lemma sort_reverse_stable:
  "filter (\<lambda>y. key y = k) (sort_reverse key xs) = filter (\<lambda>y. key y = k) xs"
proof -
  have "filter (\<lambda>y. key y = k) (sort_reverse key xs) =
          rev (filter (\<lambda>y. key y = k) (sort_key key (rev xs)))"
    by (simp add: sort_reverse_def rev_filter)
  also have "\<dots> = rev (filter (\<lambda>y. key y = k) (rev xs))" by (simp only: sort_key_stable)
  also have "\<dots> = filter (\<lambda>y. key y = k) xs" by (simp add: rev_filter)
  finally show ?thesis .
qed

lemma descending_and_stable:
  fixes key :: "'a \<Rightarrow> real"
  assumes "sorted_wrt (\<lambda>a b. key b \<le> key a) zs"
    and "\<And>k. sorted_wrt Q (filter (\<lambda>y. key y = k) zs)"
  shows "sorted_wrt (\<lambda>a b. key b < key a \<or> (key a = key b \<and> Q a b)) zs"
  using assms
proof (induction zs)
  case Nil
  show ?case by simp
next
  case (Cons z zs)
  have tail: "sorted_wrt Q (filter (\<lambda>y. key y = k) zs)" for k
    using Cons.prems(2) [of k] by (cases "key z = k") simp_all
  from Cons.prems(1) have desc: "sorted_wrt (\<lambda>a b. key b \<le> key a) zs"
    and le: "\<forall>b \<in> set zs. key b \<le> key z" by simp_all
  have "key b < key z \<or> (key z = key b \<and> Q z b)" if "b \<in> set zs" for b
  proof (cases "key b = key z")
    case True
    from Cons.prems(2) [of "key z"] have "\<forall>y \<in> set (filter (\<lambda>y. key y = key z) zs). Q z y"
      by simp
    with that True show ?thesis by simp
  next
    case False
    with le that show ?thesis by fastforce
  qed
  with Cons.IH [OF desc tail] show ?case by simp
qed

lemma sort_reverse_listed_before:
  assumes "sorted_wrt (before_in MOCK_MARKETS) xs"
  shows "sorted_wrt (listed_before sort_by) (sort_reverse (sort_field sort_by) xs)"
proof -
  have "sorted_wrt (before_in MOCK_MARKETS)
          (filter (\<lambda>y. sort_field sort_by y = k) (sort_reverse (sort_field sort_by) xs))" for k
    unfolding sort_reverse_stable using assms by (rule sorted_wrt_filter)
  from descending_and_stable [OF sort_reverse_descending this]
  have "sorted_wrt (\<lambda>a b. sort_field sort_by b < sort_field sort_by a \<or>
          (sort_field sort_by a = sort_field sort_by b \<and> before_in MOCK_MARKETS a b))
          (sort_reverse (sort_field sort_by) xs)" .
  moreover have "listed_before sort_by = (\<lambda>a b. sort_field sort_by b < sort_field sort_by a \<or>
          (sort_field sort_by a = sort_field sort_by b \<and> before_in MOCK_MARKETS a b))"
    by (intro ext) (simp add: listed_before_def)
  ultimately show ?thesis by simp
qed

lemma sorted_wrt_py_slice: "sorted_wrt R xs \<Longrightarrow> sorted_wrt R (py_slice xs start end)"
  by (simp add: py_slice_def Let_def)

lemma list_markets_compute_order:
  "sorted_wrt (listed_before sort_by) (markets (list_markets_compute cat sort_by pg pg_size search))"
proof -
  have "sorted_wrt (before_in MOCK_MARKETS) (filter_search search (filter_category cat MOCK_MARKETS))"
    unfolding filters_as_predicate by (rule filter_in_seed_order)
  then have "sorted_wrt (listed_before sort_by)
      (sort_reverse (sort_field sort_by) (filter_search search (filter_category cat MOCK_MARKETS)))"
    by (rule sort_reverse_listed_before)
  then show ?thesis
    by (simp add: list_markets_compute_def Let_def sorted_wrt_py_slice)
qed

lemma sort_field_fallback:
  "sort_by \<notin> {''volume_24h'', ''total_volume'', ''num_traders'', ''yes_price''} \<Longrightarrow>
   sort_field sort_by = volume_24h_usd"
  by (simp add: sort_field_def sort_map_def)

subsection \<open>Two requests with one cache key\<close>

text \<open>
  The cache key joins the five parameters with colons and prints a missing parameter
  as \<^verbatim>\<open>None\<close>, so different requests can have the same key. Within the time to live
  the later one gets the listing of the earlier one.
\<close>

text \<open>
  Claim C3, at the request \<^verbatim>\<open>GET /markets?search=None\<close> arriving ten seconds after
  \<^verbatim>\<open>GET /markets\<close>: both requests have the cache key
  \<^verbatim>\<open>markets:None:volume_24h:1:20:None\<close>, so the second is answered with the stored
  listing of the first, whose \<^verbatim>\<open>total_count\<close> is 4, while no seed market passes the
  search filter of the second.
\<close>

theorem list_markets_total_count_after_collision:
  "valid_list_query 1 20 \<and>
   markets_cache_key None ''volume_24h'' 1 20 (Some ''None'') =
     markets_cache_key None ''volume_24h'' 1 20 None \<and>
   fst (list_markets 60
          (snd (list_markets 60 Map.empty 1000 1000 None ''volume_24h'' 1 20 None))
          1010 1010 None ''volume_24h'' 1 20 (Some ''None'')) =
     PySearchResult (list_markets_compute None ''volume_24h'' 1 20 None) \<and>
   total_count (list_markets_compute None ''volume_24h'' 1 20 None) = 4 \<and>
   filter (passes_filters None (Some ''None'')) MOCK_MARKETS = []"
  by code_simp

text \<open>
  Claim C4, at the request \<^verbatim>\<open>sort_by=volume_24h, page=9, page_size=1, search=1:None\<close>
  arriving ten seconds after \<^verbatim>\<open>sort_by=volume_24h:9, page=1, page_size=1\<close>: the keys
  agree, the second request is answered with the one-market page of the first, and the
  pagination rule gives length 0 for page 9 of 4 markets.
\<close>

theorem list_markets_page_length_after_collision:
  "valid_list_query 1 1 \<and> valid_list_query 9 1 \<and>
   markets_cache_key None ''volume_24h'' 9 1 (Some ''1:None'') =
     markets_cache_key None ''volume_24h:9'' 1 1 None \<and>
   fst (list_markets 60
          (snd (list_markets 60 Map.empty 1000 1000 None ''volume_24h:9'' 1 1 None))
          1010 1010 None ''volume_24h'' 9 1 (Some ''1:None'')) =
     PySearchResult (list_markets_compute None ''volume_24h:9'' 1 1 None) \<and>
   length (markets (list_markets_compute None ''volume_24h:9'' 1 1 None)) = 1 \<and>
   total_count (list_markets_compute None ''volume_24h:9'' 1 1 None) = 4 \<and>
   expected_page_length 4 9 1 = 0"
  by code_simp

text \<open>
  Claim C5, at the request \<^verbatim>\<open>sort_by=yes_price, page=1, page_size=20, search=1:20:None\<close>
  arriving ten seconds after \<^verbatim>\<open>sort_by=yes_price:1:20, page=1, page_size=20\<close>: the keys
  agree, the first request sorts by 24h volume (its \<^verbatim>\<open>sort_by\<close> is not in the table),
  and the second is answered with that listing, in which market 2 (YES price 4230)
  stands before market 1 (YES price 6840).
\<close>

theorem list_markets_order_after_collision:
  "valid_list_query 1 20 \<and>
   markets_cache_key None ''yes_price'' 1 20 (Some ''1:20:None'') =
     markets_cache_key None ''yes_price:1:20'' 1 20 None \<and>
   fst (list_markets 60
          (snd (list_markets 60 Map.empty 1000 1000 None ''yes_price:1:20'' 1 20 None))
          1010 1010 None ''yes_price'' 1 20 (Some ''1:20:None'')) =
     PySearchResult (list_markets_compute None ''yes_price:1:20'' 1 20 None) \<and>
   map market_id (markets (list_markets_compute None ''yes_price:1:20'' 1 20 None)) = [2, 1, 3, 4] \<and>
   map yes_price_bps (markets (list_markets_compute None ''yes_price:1:20'' 1 20 None)) =
     [4230, 6840, 3100, 5500] \<and>
   sort_field ''yes_price'' (markets (list_markets_compute None ''yes_price:1:20'' 1 20 None) ! 0) <
     sort_field ''yes_price'' (markets (list_markets_compute None ''yes_price:1:20'' 1 20 None) ! 1)"
  by code_simp

end
